theory Spec2Isabelle
  imports Complex_Main
begin

section \<open>JavaScript numbers\<close>

text \<open>
  The scoring engine (\<^verbatim>\<open>loadWeights\<close>, \<^verbatim>\<open>PERSONALITY_MODS\<close>, \<^verbatim>\<open>scoreOptions\<close> in
  \<^verbatim>\<open>js/app.js\<close>) computes with JavaScript numbers. They are modelled as exact
  rationals extended by the three special values a division by zero can produce:
  \<open>NaN\<close>, \<open>+Infinity\<close> and \<open>-Infinity\<close>. The binary rounding of IEEE doubles and the
  sign of zero are not modelled; every finite operation is exact. The only divisor that
  can be zero in \<^verbatim>\<open>scoreOptions\<close> is the sum \<^verbatim>\<open>t\<close>, which is computed by additions
  starting from \<open>+0\<close> and therefore is never \<open>-0\<close>.
\<close>

datatype jsnum = Fin rat | PInf | NInf | NaN


fun jneg :: "jsnum \<Rightarrow> jsnum" where
  "jneg (Fin a) = Fin (- a)"
| "jneg PInf = NInf"
| "jneg NInf = PInf"
| "jneg NaN = NaN"

text \<open>\<^verbatim>\<open>a + b\<close>\<close>

fun jadd :: "jsnum \<Rightarrow> jsnum \<Rightarrow> jsnum" where
  "jadd (Fin a) (Fin b) = Fin (a + b)"
| "jadd (Fin a) PInf = PInf"
| "jadd (Fin a) NInf = NInf"
| "jadd PInf (Fin b) = PInf"
| "jadd NInf (Fin b) = NInf"
| "jadd PInf PInf = PInf"
| "jadd NInf NInf = NInf"
| "jadd PInf NInf = NaN"
| "jadd NInf PInf = NaN"
| "jadd NaN b = NaN"
| "jadd a NaN = NaN"

text \<open>\<^verbatim>\<open>a - b\<close>\<close>

definition jsub :: "jsnum \<Rightarrow> jsnum \<Rightarrow> jsnum" where
  "jsub a b = jadd a (jneg b)"

text \<open>The infinity with the sign of a non-zero rational.\<close>

definition inf_of_sign :: "rat \<Rightarrow> jsnum" where
  "inf_of_sign a = (if 0 < a then PInf else NInf)"

text \<open>\<^verbatim>\<open>a * b\<close>: zero times an infinity is \<open>NaN\<close>.\<close>

fun jmul :: "jsnum \<Rightarrow> jsnum \<Rightarrow> jsnum" where
  "jmul (Fin a) (Fin b) = Fin (a * b)"
| "jmul (Fin a) PInf = (if a = 0 then NaN else inf_of_sign a)"
| "jmul (Fin a) NInf = (if a = 0 then NaN else inf_of_sign (- a))"
| "jmul PInf (Fin b) = (if b = 0 then NaN else inf_of_sign b)"
| "jmul NInf (Fin b) = (if b = 0 then NaN else inf_of_sign (- b))"
| "jmul PInf PInf = PInf"
| "jmul NInf NInf = PInf"
| "jmul PInf NInf = NInf"
| "jmul NInf PInf = NInf"
| "jmul NaN b = NaN"
| "jmul a NaN = NaN"

text \<open>
  \<^verbatim>\<open>a / b\<close>: never raises. A finite non-zero number over zero is an infinity, zero over
  zero is \<open>NaN\<close>.
\<close>

fun jdiv :: "jsnum \<Rightarrow> jsnum \<Rightarrow> jsnum" where
  "jdiv (Fin a) (Fin b) =
     (if b \<noteq> 0 then Fin (a / b) else if a = 0 then NaN else inf_of_sign a)"
| "jdiv (Fin a) PInf = Fin 0"
| "jdiv (Fin a) NInf = Fin 0"
| "jdiv PInf (Fin b) = (if 0 \<le> b then PInf else NInf)"
| "jdiv NInf (Fin b) = (if 0 \<le> b then NInf else PInf)"
| "jdiv PInf PInf = NaN"
| "jdiv NInf NInf = NaN"
| "jdiv PInf NInf = NaN"
| "jdiv NInf PInf = NaN"
| "jdiv NaN b = NaN"
| "jdiv a NaN = NaN"

text \<open>\<^verbatim>\<open>Math.max(a, b)\<close> and \<^verbatim>\<open>Math.min(a, b)\<close>: \<open>NaN\<close> if either argument is.\<close>

fun jmax :: "jsnum \<Rightarrow> jsnum \<Rightarrow> jsnum" where
  "jmax (Fin a) (Fin b) = Fin (max a b)"
| "jmax NaN b = NaN"
| "jmax a NaN = NaN"
| "jmax PInf b = PInf"
| "jmax a PInf = PInf"
| "jmax NInf b = b"
| "jmax a NInf = a"

fun jmin :: "jsnum \<Rightarrow> jsnum \<Rightarrow> jsnum" where
  "jmin (Fin a) (Fin b) = Fin (min a b)"
| "jmin NaN b = NaN"
| "jmin a NaN = NaN"
| "jmin NInf b = NInf"
| "jmin a NInf = NInf"
| "jmin PInf b = b"
| "jmin a PInf = a"

text \<open>
  \<^verbatim>\<open>+x.toFixed(d)\<close> on a finite number: the sign is split off, a magnitude of at
  least \<open>10^21\<close> is printed in full (and read back unchanged), a smaller one is rounded
  to the nearest multiple of \<open>10^-d\<close>, the larger one on a tie.
\<close>

definition toFixed :: "nat \<Rightarrow> rat \<Rightarrow> rat" where
  "toFixed d x =
     (if 10 ^ 21 \<le> \<bar>x\<bar> then x
      else sgn x * (of_int \<lfloor>\<bar>x\<bar> * 10 ^ d + 1 / 2\<rfloor> / 10 ^ d))"

text \<open>
  \<^verbatim>\<open>+x.toFixed(d)\<close> on any number: \<^verbatim>\<open>"NaN"\<close> and \<^verbatim>\<open>"Infinity"\<close> are read back as
  themselves.
\<close>

fun jtoFixed :: "nat \<Rightarrow> jsnum \<Rightarrow> jsnum" where
  "jtoFixed d (Fin x) = Fin (toFixed d x)"
| "jtoFixed d PInf = PInf"
| "jtoFixed d NInf = NInf"
| "jtoFixed d NaN = NaN"

text \<open>\<^verbatim>\<open>x || 0\<close> on a number: \<open>0\<close> and \<open>NaN\<close> are falsy.\<close>

fun or_zero :: "jsnum \<Rightarrow> jsnum" where
  "or_zero NaN = Fin 0"
| "or_zero x = x"

text \<open>
  \<^verbatim>\<open>v || d\<close> on a property that holds a finite number or is missing (\<open>None\<close> stands
  for \<^verbatim>\<open>undefined\<close> and \<^verbatim>\<open>null\<close>): the number \<open>0\<close> is falsy as well, so it is
  replaced by the default too.
\<close>

definition or_default :: "rat option \<Rightarrow> rat \<Rightarrow> rat" where
  "or_default v d = (case v of None \<Rightarrow> d | Some x \<Rightarrow> if x = 0 then d else x)"

section \<open>Data model\<close>

text \<open>
  A row of the \<^verbatim>\<open>options\<close> table, as \<^verbatim>\<open>scoreOptions\<close> reads it. The numeric columns
  hold finite numbers (they travel as JSON) or are missing.
\<close>

record option_in =
  id_o :: "string option"
  label_o :: "string option"
  cost :: "rat option"
  time_required :: "rat option"
  risk_level :: "rat option"
  priority :: "rat option"
  reward_potential :: "rat option"

text \<open>An object with the five criterion keys \<^verbatim>\<open>cost, time, risk, priority, reward\<close>.\<close>

record 'a wvec =
  w_cost :: 'a
  w_time :: 'a
  w_risk :: 'a
  w_priority :: 'a
  w_reward :: 'a

text \<open>
  The weights argument: parsed from \<^verbatim>\<open>localStorage\<close> JSON or the literal of
  \<^verbatim>\<open>loadWeights\<close>, so each key holds a finite number or is missing.
\<close>

type_synonym weights = "rat option wvec"

text \<open>One element of \<^verbatim>\<open>scored\<close>; \<^verbatim>\<open>rank\<close> is absent until the \<^verbatim>\<open>forEach\<close> sets it.\<close>

record scored =
  option_id :: "string option"
  label :: "string option"
  cost_score :: rat
  time_score :: rat
  risk_score :: rat
  priority_score :: rat
  reward_score :: rat
  weighted_total :: jsnum
  raw_risk :: rat
  rank :: "nat option"

record analysis =
  breakdown :: "scored list"
  bestId :: "string option"
  confidence :: jsnum
  riskLevel :: string

datatype js_error = TypeError

section \<open>Weights\<close>

text \<open>The literal that \<^verbatim>\<open>loadWeights\<close> returns when nothing is stored.\<close>

definition default_weights :: weights where
  "default_weights =
     \<lparr>w_cost = Some (25 / 100), w_time = Some (20 / 100), w_risk = Some (25 / 100),
      w_priority = Some (15 / 100), w_reward = Some (15 / 100)\<rparr>"

text \<open>\<^verbatim>\<open>loadWeights\<close>: \<^verbatim>\<open>LS.get('weights') || {...}\<close>; the argument is what is stored.\<close>

definition loadWeights :: "weights option \<Rightarrow> weights" where
  "loadWeights stored = (case stored of Some w \<Rightarrow> w | None \<Rightarrow> default_weights)"

definition conservative :: weights where
  "conservative =
     \<lparr>w_cost = Some (25 / 100), w_time = Some (15 / 100), w_risk = Some (40 / 100),
      w_priority = Some (10 / 100), w_reward = Some (10 / 100)\<rparr>"

definition balanced :: weights where
  "balanced =
     \<lparr>w_cost = Some (25 / 100), w_time = Some (20 / 100), w_risk = Some (25 / 100),
      w_priority = Some (15 / 100), w_reward = Some (15 / 100)\<rparr>"

definition aggressive :: weights where
  "aggressive =
     \<lparr>w_cost = Some (20 / 100), w_time = Some (20 / 100), w_risk = Some (10 / 100),
      w_priority = Some (20 / 100), w_reward = Some (30 / 100)\<rparr>"

text \<open>
  \<^verbatim>\<open>PERSONALITY_MODS\<close> is an object literal, so a property read that misses the three
  own keys goes on to \<^verbatim>\<open>Object.prototype\<close>. These are its property names; each holds
  a function or, for \<^verbatim>\<open>__proto__\<close>, the prototype object itself: a truthy value without
  any of the five criterion keys.
\<close>

definition object_prototype_keys :: "string list" where
  "object_prototype_keys =
     [''constructor'', ''hasOwnProperty'', ''isPrototypeOf'', ''propertyIsEnumerable'',
      ''toLocaleString'', ''toString'', ''valueOf'', ''__proto__'',
      ''__defineGetter__'', ''__defineSetter__'', ''__lookupGetter__'', ''__lookupSetter__'']"

definition no_weights :: weights where
  "no_weights =
     \<lparr>w_cost = None, w_time = None, w_risk = None, w_priority = None, w_reward = None\<rparr>"

text \<open>\<^verbatim>\<open>PERSONALITY_MODS[personality]\<close>; \<open>None\<close> is \<^verbatim>\<open>undefined\<close>.\<close>

definition PERSONALITY_MODS :: "string \<Rightarrow> weights option" where
  "PERSONALITY_MODS p =
     (if p = ''conservative'' then Some conservative
      else if p = ''balanced'' then Some balanced
      else if p = ''aggressive'' then Some aggressive
      else if p \<in> set object_prototype_keys then Some no_weights
      else None)"

text \<open>
  Line 889, \<^verbatim>\<open>PERSONALITY_MODS[personality] || PERSONALITY_MODS.balanced\<close>, with the
  default parameter \<^verbatim>\<open>personality = 'balanced'\<close>: \<open>None\<close> is an omitted argument.
\<close>

definition personality_mod :: "string option \<Rightarrow> weights" where
  "personality_mod personality =
     (case PERSONALITY_MODS (case personality of None \<Rightarrow> ''balanced'' | Some p \<Rightarrow> p) of
        Some m \<Rightarrow> m
      | None \<Rightarrow> balanced)"

text \<open>Line 892: \<^verbatim>\<open>w[k] = (weights[k]||0)*0.6 + (mod[k]||0)*0.4\<close> for the five keys.\<close>

definition blend_raw :: "weights \<Rightarrow> weights \<Rightarrow> rat wvec" where
  "blend_raw weights m =
     \<lparr>w_cost = or_default (w_cost weights) 0 * (6 / 10) + or_default (w_cost m) 0 * (4 / 10),
      w_time = or_default (w_time weights) 0 * (6 / 10) + or_default (w_time m) 0 * (4 / 10),
      w_risk = or_default (w_risk weights) 0 * (6 / 10) + or_default (w_risk m) 0 * (4 / 10),
      w_priority =
        or_default (w_priority weights) 0 * (6 / 10) + or_default (w_priority m) 0 * (4 / 10),
      w_reward =
        or_default (w_reward weights) 0 * (6 / 10) + or_default (w_reward m) 0 * (4 / 10)\<rparr>"

text \<open>Line 893: \<^verbatim>\<open>Object.values(w).reduce((a,b)=>a+b,0)\<close>, in insertion order.\<close>

definition weight_sum :: "rat wvec \<Rightarrow> rat" where
  "weight_sum w = 0 + w_cost w + w_time w + w_risk w + w_priority w + w_reward w"

text \<open>Line 894: \<^verbatim>\<open>w[k] /= t\<close> for the five keys.\<close>

definition normalize_weights :: "rat wvec \<Rightarrow> jsnum wvec" where
  "normalize_weights w =
     (let t = weight_sum w in
      \<lparr>w_cost = jdiv (Fin (w_cost w)) (Fin t), w_time = jdiv (Fin (w_time w)) (Fin t),
       w_risk = jdiv (Fin (w_risk w)) (Fin t), w_priority = jdiv (Fin (w_priority w)) (Fin t),
       w_reward = jdiv (Fin (w_reward w)) (Fin t)\<rparr>)"

text \<open>Lines 889 to 894 of \<^verbatim>\<open>scoreOptions\<close>: the blended, normalised weight vector.\<close>

definition blend :: "weights \<Rightarrow> string option \<Rightarrow> jsnum wvec" where
  "blend weights personality = normalize_weights (blend_raw weights (personality_mod personality))"

section \<open>Scoring\<close>

text \<open>\<^verbatim>\<open>Math.max(...xs, 1)\<close> on finite numbers.\<close>

definition max_with_one :: "rat list \<Rightarrow> rat" where
  "max_with_one xs = fold max xs 1"

text \<open>The function mapped over \<^verbatim>\<open>options\<close> on lines 899 to 909.\<close>

definition score_option :: "jsnum wvec \<Rightarrow> rat \<Rightarrow> rat \<Rightarrow> option_in \<Rightarrow> scored" where
  "score_option w maxCost maxTime opt =
     (let cs = max 0 (100 - (or_default (cost opt) 0 / maxCost) * 100);
          ts = max 0 (100 - (or_default (time_required opt) 0 / maxTime) * 100);
          rs = (10 - or_default (risk_level opt) 5) * 10;
          ps = or_default (priority opt) 5 * 10;
          ws = or_default (reward_potential opt) 5 * 10;
          total =
            jadd (jadd (jadd (jadd (jmul (Fin cs) (w_cost w)) (jmul (Fin ts) (w_time w)))
              (jmul (Fin rs) (w_risk w))) (jmul (Fin ps) (w_priority w)))
              (jmul (Fin ws) (w_reward w))
      in \<lparr>option_id = id_o opt, label = label_o opt, cost_score = toFixed 2 cs,
          time_score = toFixed 2 ts, risk_score = toFixed 2 rs, priority_score = toFixed 2 ps,
          reward_score = toFixed 2 ws, weighted_total = jtoFixed 2 total,
          raw_risk = or_default (risk_level opt) 5, rank = None\<rparr>)"

text \<open>
  Line 911: the comparator \<^verbatim>\<open>(a,b) => b.weighted_total - a.weighted_total\<close>. The sort
  reads a \<open>NaN\<close> result as \<open>0\<close>; \<open>a\<close> has to come after \<open>b\<close> when the result is positive.
\<close>

definition compare_fn :: "scored \<Rightarrow> scored \<Rightarrow> jsnum" where
  "compare_fn a b = jsub (weighted_total b) (weighted_total a)"

fun is_positive :: "jsnum \<Rightarrow> bool" where
  "is_positive (Fin v) = (0 < v)"
| "is_positive PInf = True"
| "is_positive NInf = False"
| "is_positive NaN = False"

text \<open>
  \<^verbatim>\<open>Array.prototype.sort\<close> is stable; it is modelled as the stable insertion sort.
  An element moves behind another one only when the comparator says so.
\<close>

fun sort_insert :: "scored \<Rightarrow> scored list \<Rightarrow> scored list" where
  "sort_insert x [] = [x]"
| "sort_insert x (y # ys) =
     (if is_positive (compare_fn x y) then y # sort_insert x ys else x # y # ys)"

fun sort_scored :: "scored list \<Rightarrow> scored list" where
  "sort_scored [] = []"
| "sort_scored (x # xs) = sort_insert x (sort_scored xs)"

text \<open>Line 912: \<^verbatim>\<open>scored.forEach((s,i) => s.rank = i+1)\<close>, from index \<open>i\<close> on.\<close>

fun assign_ranks :: "nat \<Rightarrow> scored list \<Rightarrow> scored list" where
  "assign_ranks i [] = []"
| "assign_ranks i (s # ss) = s\<lparr>rank := Some (i + 1)\<rparr> # assign_ranks (i + 1) ss"

text \<open>Line 917: the threshold table on \<^verbatim>\<open>raw\<close>.\<close>

definition risk_bucket :: "rat \<Rightarrow> string" where
  "risk_bucket raw =
     (if raw \<le> 25 / 10 then ''low'' else if raw \<le> 5 then ''medium''
      else if raw \<le> 75 / 10 then ''high'' else ''critical'')"

text \<open>Line 915: the confidence from the gap.\<close>

definition confidence_of :: "jsnum \<Rightarrow> jsnum" where
  "confidence_of gap =
     jtoFixed 1 (jmin (Fin 99) (jmax (Fin 50)
       (jadd (Fin 50) (jmul (jdiv gap (Fin 100)) (Fin 49)))))"

text \<open>Lines 896 to 909: \<^verbatim>\<open>maxCost\<close>, \<^verbatim>\<open>maxTime\<close> and the array \<^verbatim>\<open>scored\<close> before it is sorted.\<close>

definition scored_list :: "option_in list \<Rightarrow> weights \<Rightarrow> string option \<Rightarrow> scored list" where
  "scored_list options weights personality =
     (let w = blend weights personality;
          maxCost = max_with_one (map (\<lambda>opt. or_default (cost opt) 0) options);
          maxTime = max_with_one (map (\<lambda>opt. or_default (time_required opt) 0) options)
      in map (score_option w maxCost maxTime) options)"

text \<open>Lines 911 and 912: the array \<^verbatim>\<open>scored\<close> after the sort and the ranking.\<close>

definition ranked :: "option_in list \<Rightarrow> weights \<Rightarrow> string option \<Rightarrow> scored list" where
  "ranked options weights personality =
     assign_ranks 0 (sort_scored (scored_list options weights personality))"

text \<open>
  \<^verbatim>\<open>scoreOptions\<close>. Reading \<^verbatim>\<open>scored[0].weighted_total\<close> of an empty array throws a
  \<^verbatim>\<open>TypeError\<close>; \<^verbatim>\<open>scored[1]?.weighted_total || 0\<close> is \<open>0\<close> when there is no second
  element. Nothing else in the function can throw.
\<close>

definition scoreOptions ::
  "option_in list \<Rightarrow> weights \<Rightarrow> string option \<Rightarrow> js_error + analysis" where
  "scoreOptions options weights personality =
     (case ranked options weights personality of
        [] \<Rightarrow> Inl TypeError
      | s0 # rest \<Rightarrow>
          (let gap = jsub (weighted_total s0)
                 (case rest of [] \<Rightarrow> Fin 0 | s1 # _ \<Rightarrow> or_zero (weighted_total s1));
               raw = raw_risk s0
           in Inr \<lparr>breakdown = s0 # rest, bestId = option_id s0,
                   confidence = confidence_of gap, riskLevel = risk_bucket raw\<rparr>))"

section \<open>The spec's formulas\<close>






section \<open>Example inputs\<close>

text \<open>The two options of the spec's worked example.\<close>

definition example_first :: option_in where
  "example_first =
     \<lparr>id_o = None, label_o = None, cost = Some 0, time_required = Some 0,
      risk_level = Some 0, priority = Some 10, reward_potential = Some 10\<rparr>"

definition example_second :: option_in where
  "example_second =
     \<lparr>id_o = None, label_o = None, cost = Some 1000, time_required = Some 100,
      risk_level = Some 10, priority = Some 0, reward_potential = Some 0\<rparr>"

text \<open>Options as the application stores them, with an id and a label.\<close>

definition mk_option ::
  "string \<Rightarrow> string \<Rightarrow> rat \<Rightarrow> rat \<Rightarrow> rat \<Rightarrow> rat \<Rightarrow> rat \<Rightarrow> option_in" where
  "mk_option i l c t r p w =
     \<lparr>id_o = Some i, label_o = Some l, cost = Some c, time_required = Some t,
      risk_level = Some r, priority = Some p, reward_potential = Some w\<rparr>"

text \<open>Two options that differ in their cost only, 100 against 200.\<close>

definition stay_or_move :: "option_in list" where
  "stay_or_move =
     [mk_option ''a'' ''Stay'' 100 3 4 6 7, mk_option ''b'' ''Move'' 200 3 4 6 7]"


text \<open>User weights that put everything on the cost criterion.\<close>

definition cost_only_weights :: weights where
  "cost_only_weights =
     \<lparr>w_cost = Some 1, w_time = Some 0, w_risk = Some 0, w_priority = Some 0,
      w_reward = Some 0\<rparr>"


section \<open>Auxiliary facts\<close>

subsection \<open>The sort and the ranking keep the elements\<close>

lemma sort_insert_length: "length (sort_insert x xs) = Suc (length xs)"
  by (induction xs) auto

lemma sort_scored_length: "length (sort_scored xs) = length xs"
  by (induction xs) (auto simp: sort_insert_length)

lemma assign_ranks_length: "length (assign_ranks i xs) = length xs"
  by (induction xs arbitrary: i) auto

lemma scored_list_length: "length (scored_list options weights personality) = length options"
  by (simp add: scored_list_def Let_def)

lemma ranked_length: "length (ranked options weights personality) = length options"
  by (simp add: ranked_def assign_ranks_length sort_scored_length scored_list_length)



lemma map_assign_ranks:
  assumes "\<And>s r. f (s\<lparr>rank := r\<rparr>) = f s"
  shows "map f (assign_ranks i xs) = map f xs"
  by (induction xs arbitrary: i) (auto simp: assms)





subsection \<open>What \<open>scoreOptions\<close> returns\<close>

lemma scoreOptions_breakdown:
  "scoreOptions options weights personality = Inr r \<Longrightarrow>
     breakdown r = ranked options weights personality"
  by (auto simp: scoreOptions_def Let_def split: list.splits)

lemma scoreOptions_returns:
  assumes "options \<noteq> []"
  shows "\<exists>r. scoreOptions options weights personality = Inr r"
proof -
  have "ranked options weights personality \<noteq> []"
    using assms ranked_length [of options weights personality] by auto
  then show ?thesis
    by (auto simp: scoreOptions_def Let_def split: list.splits)
qed

subsection \<open>Non-finite weights\<close>






subsection \<open>Finite weights\<close>





subsection \<open>Rounding\<close>

lemma floor_add_half: "\<lfloor>(of_int k :: rat) + 1 / 2\<rfloor> = k"
  by (rule floor_unique) simp_all

lemma toFixed_of_int: "toFixed d (of_int n) = of_int n"
proof -
  have "\<bar>(of_int n :: rat)\<bar> * 10 ^ d = of_int (\<bar>n\<bar> * 10 ^ d)" by simp
  then have "\<lfloor>\<bar>(of_int n :: rat)\<bar> * 10 ^ d + 1 / 2\<rfloor> = \<bar>n\<bar> * 10 ^ d"
    using floor_add_half [of "\<bar>n\<bar> * 10 ^ d"] by simp
  moreover have "sgn (of_int n :: rat) * \<bar>of_int n\<bar> = of_int n"
    by (simp add: sgn_mult_abs)
  ultimately show ?thesis
    by (simp add: toFixed_def)
qed

lemma toFixed_50: "toFixed d 50 = 50"
  using toFixed_of_int [of d 50] by simp

lemma toFixed_0: "toFixed d 0 = 0"
  by (simp add: toFixed_def)


subsection \<open>The sort is descending and stable\<close>












subsection \<open>The confidence\<close>






section \<open>The worked example\<close>

text \<open>
  C1. On the spec's worked example (balanced default weights, personality \<open>balanced\<close>)
  the engine does not produce the totals 100 and 0: the first option's risk level \<open>0\<close> is
  replaced by the default \<open>5\<close> (risk sub-score 50, raw risk 5) and the second option's
  priority and reward \<open>0\<close> are replaced by \<open>5\<close> (sub-scores 50). The first option still
  ranks first, with total 87.5 against 15, the confidence is 85.5 and the risk level of
  the winner is \<open>medium\<close>.
\<close>

theorem scoreOptions_worked_example:
  "scoreOptions [example_first, example_second] (loadWeights None) (Some ''balanced'') =
     Inr \<lparr>breakdown =
        [\<lparr>option_id = None, label = None, cost_score = 100, time_score = 100,
          risk_score = 50, priority_score = 100, reward_score = 100,
          weighted_total = Fin (875 / 10), raw_risk = 5, rank = Some 1\<rparr>,
         \<lparr>option_id = None, label = None, cost_score = 0, time_score = 0,
          risk_score = 0, priority_score = 50, reward_score = 50,
          weighted_total = Fin 15, raw_risk = 10, rank = Some 2\<rparr>],
        bestId = None, confidence = Fin (855 / 10), riskLevel = ''medium''\<rparr>"
  by code_simp

section \<open>Risk and priority sub-scores\<close>

text \<open>
  C2. A risk level or a priority of \<open>0\<close> is not scored as the number it is: line 902
  reads \<^verbatim>\<open>o.risk_level||5\<close> and line 903 \<^verbatim>\<open>o.priority||5\<close>, and \<open>0\<close> is falsy. The
  option \<open>a\<close> below has risk level \<open>0\<close> and priority \<open>0\<close>; its risk sub-score is 50
  (not 100), its priority sub-score is 50 (not 0) and its raw risk is 5. The option \<open>b\<close>
  with risk level 10 and priority 10 gets 0 and 100, as the formulas say.
\<close>

theorem zero_is_defaulted_example:
  "scoreOptions [mk_option ''a'' ''Stay'' 10 1 0 0 5, mk_option ''b'' ''Move'' 20 2 10 10 5]
      (loadWeights None) None =
     Inr \<lparr>breakdown =
        [\<lparr>option_id = Some ''a'', label = Some ''Stay'', cost_score = 50, time_score = 50,
          risk_score = 50, priority_score = 50, reward_score = 50,
          weighted_total = Fin 50, raw_risk = 5, rank = Some 1\<rparr>,
         \<lparr>option_id = Some ''b'', label = Some ''Move'', cost_score = 0, time_score = 0,
          risk_score = 0, priority_score = 100, reward_score = 50,
          weighted_total = Fin (225 / 10), raw_risk = 10, rank = Some 2\<rparr>],
        bestId = Some ''a'', confidence = Fin (635 / 10), riskLevel = ''medium''\<rparr>"
  by code_simp

section \<open>Too few options\<close>

text \<open>
  C3, as the code has it. \<^verbatim>\<open>scoreOptions\<close> checks neither the number of options nor
  their labels. The only error it signals is the \<^verbatim>\<open>TypeError\<close> of reading
  \<^verbatim>\<open>scored[0].weighted_total\<close> when the list of options is empty; every non-empty list,
  a single option included, gets a result.
\<close>

theorem scoreOptions_error_iff_empty:
  "(scoreOptions options weights personality = Inl TypeError) = (options = []) \<and>
   (\<exists>r. scoreOptions options weights personality = Inr r) = (options \<noteq> [])"
proof (cases "options = []")
  case True
  then show ?thesis by (simp add: scoreOptions_def ranked_def scored_list_def)
next
  case False
  then show ?thesis using scoreOptions_returns [OF False, of weights personality] by auto
qed

text \<open>
  A single option with a label is scored, not rejected: the gap is its own total, \<open>31.5\<close>,
  and the confidence \<open>65.4\<close>.
\<close>

theorem single_option_not_rejected_counterexample:
  "scoreOptions [mk_option ''a'' ''Stay'' 10 1 4 6 5] (loadWeights None) (Some ''balanced'') =
     Inr \<lparr>breakdown =
        [\<lparr>option_id = Some ''a'', label = Some ''Stay'', cost_score = 0, time_score = 0,
          risk_score = 60, priority_score = 60, reward_score = 50,
          weighted_total = Fin (315 / 10), raw_risk = 4, rank = Some 1\<rparr>],
        bestId = Some ''a'', confidence = Fin (654 / 10), riskLevel = ''medium''\<rparr>"
  by code_simp

section \<open>A blended weight vector that sums to zero\<close>




section \<open>Relative cost scores\<close>

text \<open>
  C5, as the code has it. For two options with costs 100 and 200, \<^verbatim>\<open>maxCost\<close> is 200
  and the cost sub-scores are \<open>100 - (100/200)*100 = 50\<close> and \<open>100 - (200/200)*100 = 0\<close>,
  whatever the other attributes, the weights and the personality are. The breakdown
  holds the two options in one order or the other.
\<close>

theorem cost_scores_of_100_and_200:
  assumes "cost o1 = Some 100" and "cost o2 = Some 200"
  shows "\<exists>r. scoreOptions [o1, o2] weights personality = Inr r \<and>
           (map (\<lambda>s. (option_id s, cost_score s)) (breakdown r) =
              [(id_o o1, 50), (id_o o2, 0)] \<or>
            map (\<lambda>s. (option_id s, cost_score s)) (breakdown r) =
              [(id_o o2, 0), (id_o o1, 50)])"
proof -
  obtain r where r: "scoreOptions [o1, o2] weights personality = Inr r"
    using scoreOptions_returns [of "[o1, o2]"] by blast
  have m: "map (\<lambda>s. (option_id s, cost_score s)) (assign_ranks i xs) =
      map (\<lambda>s. (option_id s, cost_score s)) xs" for i xs
    by (rule map_assign_ranks) simp
  have "max_with_one [100, 200] = 200" by (simp add: max_with_one_def)
  then have "map (\<lambda>s. (option_id s, cost_score s)) (scored_list [o1, o2] weights personality) =
      [(id_o o1, 50), (id_o o2, 0)]"
    using assms toFixed_50 [of 2]
    by (simp add: scored_list_def Let_def score_option_def or_default_def toFixed_0)
  then have "map (\<lambda>s. (option_id s, cost_score s)) (ranked [o1, o2] weights personality) =
        [(id_o o1, 50), (id_o o2, 0)] \<or>
      map (\<lambda>s. (option_id s, cost_score s)) (ranked [o1, o2] weights personality) =
        [(id_o o2, 0), (id_o o1, 50)]"
    unfolding ranked_def m
    by (cases "scored_list [o1, o2] weights personality") (auto split: if_splits)
  then show ?thesis using r scoreOptions_breakdown [OF r] by simp
qed

theorem cost_scores_of_100_and_200_witness:
  "cost (mk_option ''a'' ''Stay'' 100 3 4 6 7) = Some 100 \<and>
   cost (mk_option ''b'' ''Move'' 200 3 4 6 7) = Some 200 \<and>
   (\<exists>r. scoreOptions [mk_option ''a'' ''Stay'' 100 3 4 6 7, mk_option ''b'' ''Move'' 200 3 4 6 7]
          cost_only_weights (Some ''conservative'') = Inr r \<and>
      (map (\<lambda>s. (option_id s, cost_score s)) (breakdown r) =
         [(id_o (mk_option ''a'' ''Stay'' 100 3 4 6 7), 50),
          (id_o (mk_option ''b'' ''Move'' 200 3 4 6 7), 0)] \<or>
       map (\<lambda>s. (option_id s, cost_score s)) (breakdown r) =
         [(id_o (mk_option ''b'' ''Move'' 200 3 4 6 7), 0),
          (id_o (mk_option ''a'' ''Stay'' 100 3 4 6 7), 50)]))"
proof -
  have a: "cost (mk_option ''a'' ''Stay'' 100 3 4 6 7) = Some 100"
    by (simp add: mk_option_def)
  have b: "cost (mk_option ''b'' ''Move'' 200 3 4 6 7) = Some 200"
    by (simp add: mk_option_def)
  show ?thesis by (rule conjI [OF a conjI [OF b cost_scores_of_100_and_200 [OF a b]]])
qed

text \<open>
  On two options that differ in cost only (100 and 200), with the default weights, the
  cost sub-scores are 50 and 0, not 100 and 50.
\<close>

theorem cost_scores_counterexample:
  "scoreOptions stay_or_move (loadWeights None) (Some ''balanced'') =
     Inr \<lparr>breakdown =
        [\<lparr>option_id = Some ''a'', label = Some ''Stay'', cost_score = 50, time_score = 0,
          risk_score = 60, priority_score = 60, reward_score = 70,
          weighted_total = Fin 47, raw_risk = 4, rank = Some 1\<rparr>,
         \<lparr>option_id = Some ''b'', label = Some ''Move'', cost_score = 0, time_score = 0,
          risk_score = 60, priority_score = 60, reward_score = 70,
          weighted_total = Fin (345 / 10), raw_risk = 4, rank = Some 2\<rparr>],
        bestId = Some ''a'', confidence = Fin (561 / 10), riskLevel = ''medium''\<rparr>"
  by code_simp

section \<open>The risk level of the winner\<close>

text \<open>
  C6. The risk level is read off \<^verbatim>\<open>raw_risk\<close>, which line 908 sets to
  \<^verbatim>\<open>o.risk_level||5\<close>. The winner \<open>a\<close> below has the input risk level \<open>0\<close>, which the
  threshold table puts into the bucket \<open>low\<close>; its raw risk is 5 and the result says
  \<open>medium\<close>.
\<close>

theorem winner_risk_zero_example:
  "risk_level (mk_option ''a'' ''Stay'' 0 0 0 10 10) = Some 0 \<and> risk_bucket 0 = ''low'' \<and>
   scoreOptions [mk_option ''a'' ''Stay'' 0 0 0 10 10, mk_option ''b'' ''Move'' 500 40 8 2 2]
      (loadWeights None) (Some ''conservative'') =
     Inr \<lparr>breakdown =
        [\<lparr>option_id = Some ''a'', label = Some ''Stay'', cost_score = 100, time_score = 100,
          risk_score = 50, priority_score = 100, reward_score = 100,
          weighted_total = Fin (845 / 10), raw_risk = 5, rank = Some 1\<rparr>,
         \<lparr>option_id = Some ''b'', label = Some ''Move'', cost_score = 0, time_score = 0,
          risk_score = 20, priority_score = 20, reward_score = 20,
          weighted_total = Fin (114 / 10), raw_risk = 8, rank = Some 2\<rparr>],
        bestId = Some ''a'', confidence = Fin (858 / 10), riskLevel = ''medium''\<rparr>"
  by code_simp

section \<open>The confidence\<close>




section \<open>Stable ranking\<close>



section \<open>The balanced table is a fixed point of blending\<close>

text \<open>
  C9. Blending the balanced weight table \<open>{cost: 0.25, time: 0.20, risk: 0.25,
  priority: 0.15, reward: 0.15}\<close> with the personality \<open>balanced\<close> gives the balanced table
  again: each entry is \<open>0.6 * x + 0.4 * x = x\<close>, and the five entries sum to \<open>1\<close>, so the
  normalisation changes nothing.
\<close>

theorem blend_balanced_fixed_point:
  "blend balanced (Some ''balanced'') =
     \<lparr>w_cost = Fin (25 / 100), w_time = Fin (20 / 100), w_risk = Fin (25 / 100),
      w_priority = Fin (15 / 100), w_reward = Fin (15 / 100)\<rparr>"
  by (simp add: blend_def normalize_weights_def blend_raw_def personality_mod_def
      PERSONALITY_MODS_def balanced_def or_default_def weight_sum_def)

section \<open>Unknown personalities\<close>




end
